theory Spec2Isabelle
  imports Main "HOL-Library.Word"
begin

section \<open>Strings and bytes\<close>

text \<open>
  Python strings are modelled as \<open>string\<close>; a character stands for the code point of
  the same number, so the model covers prompts whose code points are below 256.
  \<open>isspace\<close> is Python's \<^verbatim>\<open>str.isspace\<close> on that range: tab, line feed, vertical tab,
  form feed, carriage return, the four separators 28 to 31, space, NEL and the
  no-break space. \<open>strip\<close> is \<^verbatim>\<open>str.strip()\<close> without argument.
\<close>

definition isspace :: "char \<Rightarrow> bool" where
  "isspace c = ((of_char c :: nat) \<in> set [9, 10, 11, 12, 13, 28, 29, 30, 31, 32, 133, 160])"

definition strip :: "string \<Rightarrow> string" where
  "strip s = rev (dropWhile isspace (rev (dropWhile isspace s)))"

text \<open>
  \<^verbatim>\<open>base64.b64encode(b).decode('utf-8')\<close> of the standard library: the alphabet of
  RFC 4648, three bytes to four characters, padded with \<open>=\<close>.
\<close>

definition b64_alphabet :: string where
  "b64_alphabet = ''ABCDEFGHIJKLMNOPQRSTUVWXYZabcdefghijklmnopqrstuvwxyz0123456789+/''"

definition b64_char :: "nat \<Rightarrow> char" where
  "b64_char n = b64_alphabet ! (n mod 64)"

fun b64encode :: "8 word list \<Rightarrow> string" where
  "b64encode [] = []"
| "b64encode [a] =
     [b64_char (unat a div 4), b64_char ((unat a mod 4) * 16), CHR ''='', CHR ''='']"
| "b64encode [a, b] =
     [b64_char (unat a div 4), b64_char ((unat a mod 4) * 16 + unat b div 16),
      b64_char ((unat b mod 16) * 4), CHR ''='']"
| "b64encode (a # b # c # rest) =
     [b64_char (unat a div 4), b64_char ((unat a mod 4) * 16 + unat b div 16),
      b64_char ((unat b mod 16) * 4 + unat c div 64), b64_char (unat c mod 64)]
     @ b64encode rest"

section \<open>Data of the application\<close>

text \<open>
  An uploaded file as the upload widget hands it over: \<open>ftype\<close> is \<^verbatim>\<open>f.type\<close>
  (\<open>None\<close> for Python's \<^verbatim>\<open>None\<close>), \<open>fdata\<close> is what \<^verbatim>\<open>f.read()\<close> returns.
\<close>

record uploaded_file =
  ftype :: "string option"
  fdata :: "8 word list"

text \<open>The dictionary with the keys \<^verbatim>\<open>mime\<close> and \<^verbatim>\<open>data_url\<close> built for each upload.\<close>

record image =
  mime :: string
  data_url :: string

text \<open>
  A content element of type \<^verbatim>\<open>input_text\<close> or \<^verbatim>\<open>input_image\<close>, and the input item
  of type \<^verbatim>\<open>message\<close> that wraps the content list.
\<close>

datatype part = InputText string | InputImage string

datatype item = Message string "part list"

fun item_content :: "item \<Rightarrow> part list" where
  "item_content (Message r c) = c"

text \<open>
  The content of a stored message: the renderer of the history accepts a plain string
  or a list of input items.
\<close>

datatype content = Str string | Items "item list"

record message =
  role :: string
  content :: content

text \<open>The two keys of \<^verbatim>\<open>st.session_state\<close>.\<close>

record session_state =
  messages :: "message list"
  previous_response_id :: "string option"

text \<open>
  The response object: \<open>output_text\<close> is its aggregated text. \<open>id_attr\<close> tells the three
  shapes of the attribute \<^verbatim>\<open>id\<close> apart: \<open>None\<close> when the object has no such attribute
  (\<^verbatim>\<open>hasattr(response, 'id')\<close> is false), \<open>Some None\<close> when it has the attribute with the
  value \<^verbatim>\<open>None\<close>, and \<open>Some (Some i)\<close> when it has the attribute with the string \<open>i\<close>.
\<close>

record response =
  output_text :: string
  id_attr :: "string option option"

text \<open>The file-search tool entry and the keyword arguments of \<^verbatim>\<open>client.responses.create\<close>.\<close>

record tool =
  vector_store_ids :: "string option list"
  max_num_results :: nat

record request =
  model :: string
  input :: "item list"
  instructions :: string
  tools :: "tool list"
  req_previous_response_id :: "string option"

text \<open>
  What a run of the script does to the outside: the widgets it writes to the page, the
  remote call it issues, and the rerun it asks for.
\<close>

datatype event =
    Warning string
  | Success string
  | Markdown string
  | Image string
  | Error string
  | ApiCall request
  | Rerun

section \<open>Request builder\<close>

text \<open>The loop \<^verbatim>\<open>for img in images: content.append(...)\<close>.\<close>

fun append_images :: "part list \<Rightarrow> image list \<Rightarrow> part list" where
  "append_images acc [] = acc"
| "append_images acc (img # images) =
     append_images (acc @ [InputImage (data_url img)]) images"

definition build_input_parts :: "string \<Rightarrow> image list \<Rightarrow> item list" where
  "build_input_parts text images =
     (let content = [];
          content = (if text \<noteq> [] \<and> strip text \<noteq> []
                     then content @ [InputText (strip text)] else content);
          content = append_images content images
      in if content \<noteq> [] then [Message ''user'' content] else [])"

text \<open>\<^verbatim>\<open>f.type or 'image/png'\<close>: the default replaces \<^verbatim>\<open>None\<close> and the empty string.\<close>

definition type_or_default :: "uploaded_file \<Rightarrow> string" where
  "type_or_default f =
     (case ftype f of None \<Rightarrow> ''image/png''
      | Some t \<Rightarrow> if t = [] then ''image/png'' else t)"

definition to_image :: "uploaded_file \<Rightarrow> image" where
  "to_image f =
     \<lparr>mime = type_or_default f,
      data_url = ''data:'' @ type_or_default f @ '';base64,'' @ b64encode (fdata f)\<rparr>"

section \<open>Start of the script\<close>

text \<open>
  Lines 33 to 43. The constructor of the client belongs to the provider's library, so it
  is a parameter: it returns the client or raises (\<open>Inl\<close> with the message of the
  exception). An exception raised there is not caught, so it ends the run before the
  warnings. \<^verbatim>\<open>not X\<close> holds for \<^verbatim>\<open>None\<close> and for the empty string.
\<close>

definition not_set :: "string option \<Rightarrow> bool" where
  "not_set v = (case v of None \<Rightarrow> True | Some x \<Rightarrow> x = [])"

definition startup ::
  "(string option \<Rightarrow> string + 'c) \<Rightarrow> string option \<Rightarrow> string option \<Rightarrow> string + ('c \<times> event list)"
where
  "startup OpenAI OPENAI_API_KEY VECTOR_STORE_ID =
     (case OpenAI OPENAI_API_KEY of
        Inl e \<Rightarrow> Inl e
      | Inr client \<Rightarrow>
          Inr (client,
               (if not_set OPENAI_API_KEY then [Warning ''OPENAI_API_KEY is not set''] else [])
               @ (if not_set VECTOR_STORE_ID then [Warning ''VECTOR_STORE_ID is not set''] else [])))"

definition nl :: string where
  "nl = [CHR 0x0A]"

definition system_prompt :: string where
  "system_prompt =
     nl @ ''You are a very helpful fundmanager assistant that can help with the financial data of a company.''
     @ nl @ ''You are given a file that contains the financial data of a company.''
     @ nl @ ''You are also given a question about the financial data of the company.''
     @ nl @ ''You need to answer the question based on the financial data of the company.''
     @ nl @ ''You need to use the file to answer the question.''
     @ nl"

text \<open>Lines 55 to 60: both keys are created on the first run of a session.\<close>

definition initial_state :: session_state where
  "initial_state = \<lparr>messages = [], previous_response_id = None\<rparr>"

section \<open>Sidebar\<close>

text \<open>The body of the button \<^verbatim>\<open>Clear Conversation\<close>, and the sidebar that runs it on a click.\<close>

definition clear_conversation :: "session_state \<Rightarrow> session_state \<times> event list" where
  "clear_conversation s =
     (s\<lparr>messages := [], previous_response_id := None\<rparr>,
      [Success ''Conversation cleared'', Rerun])"

definition sidebar :: "bool \<Rightarrow> session_state \<Rightarrow> session_state \<times> event list" where
  "sidebar clicked s = (if clicked then clear_conversation s else (s, []))"

section \<open>Remote call\<close>

text \<open>
  \<open>create\<close> stands for \<^verbatim>\<open>client.responses.create\<close>: it answers a request with a
  response or raises an exception, given by its message.
\<close>

definition call_responses_api ::
  "string option \<Rightarrow> (request \<Rightarrow> string + response) \<Rightarrow> item list \<Rightarrow> string option
     \<Rightarrow> (string + response) \<times> event list"
where
  "call_responses_api VECTOR_STORE_ID create parts prev =
     (let tools = [\<lparr>vector_store_ids = [VECTOR_STORE_ID], max_num_results = 20\<rparr>];
          req = \<lparr>model = ''gpt-5-nano'', input = parts, instructions = system_prompt,
                 tools = tools, req_previous_response_id = prev\<rparr>
      in (create req, [ApiCall req]))"

definition get_text_output :: "response \<Rightarrow> string" where
  "get_text_output r = output_text r"

section \<open>Submission of a prompt\<close>

text \<open>Lines 180 to 190: the user's message as it is shown.\<close>

fun display_content_item :: "part \<Rightarrow> event" where
  "display_content_item (InputText t) = Markdown t"
| "display_content_item (InputImage url) = Image url"

definition display_parts :: "item list \<Rightarrow> event list" where
  "display_parts parts = concat (map (\<lambda>p. map display_content_item (item_content p)) parts)"

text \<open>Line 176: the user message that is stored.\<close>

definition store_user_message :: "string \<Rightarrow> session_state \<Rightarrow> session_state" where
  "store_user_message prompt s =
     s\<lparr>messages := messages s @ [\<lparr>role = ''user'', content = Str prompt\<rparr>]\<rparr>"

text \<open>Lines 192 to 207: the remote call inside \<^verbatim>\<open>try\<close>, and the handler of its exception.\<close>

definition generate_response ::
  "string option \<Rightarrow> (request \<Rightarrow> string + response) \<Rightarrow> item list \<Rightarrow> session_state
     \<Rightarrow> session_state \<times> event list"
where
  "generate_response VECTOR_STORE_ID create parts s =
     (case call_responses_api VECTOR_STORE_ID create parts (previous_response_id s) of
        (Inl e, ev) \<Rightarrow> (s, ev @ [Error (''Error generating response: '' @ e)])
      | (Inr r, ev) \<Rightarrow>
          (let out = get_text_output r;
               ev = ev @ [Markdown out];
               s = s\<lparr>messages := messages s @ [\<lparr>role = ''assistant'', content = Str out\<rparr>]\<rparr>;
               s = (case id_attr r of
                      Some i \<Rightarrow> s\<lparr>previous_response_id := i\<rparr>
                    | None \<Rightarrow> s)
           in (s, ev)))"

text \<open>
  Lines 162 to 207. \<open>prompt\<close> is the value of the chat input (\<open>None\<close> when nothing was
  sent), \<open>uploaded\<close> the files of the upload widget.
\<close>

definition on_prompt ::
  "string option \<Rightarrow> (request \<Rightarrow> string + response) \<Rightarrow> string option \<Rightarrow> uploaded_file list
     \<Rightarrow> session_state \<Rightarrow> session_state \<times> event list"
where
  "on_prompt VECTOR_STORE_ID create prompt uploaded s =
     (case prompt of
        None \<Rightarrow> (s, [])
      | Some p \<Rightarrow>
          (let images = map to_image uploaded;
               parts = build_input_parts p images;
               s = store_user_message p s;
               ev = display_parts parts;
               (s, ev') = generate_response VECTOR_STORE_ID create parts s
           in (s, ev @ ev')))"

text \<open>The remote calls among the events of a run.\<close>

fun api_calls :: "event list \<Rightarrow> request list" where
  "api_calls [] = []"
| "api_calls (ApiCall r # es) = r # api_calls es"
| "api_calls (e # es) = api_calls es"

section \<open>Notions used to state the properties\<close>

text \<open>The request that \<open>call_responses_api\<close> hands to the provider, written as one record.\<close>

definition responses_request :: "string option \<Rightarrow> item list \<Rightarrow> string option \<Rightarrow> request" where
  "responses_request VECTOR_STORE_ID parts prev =
     \<lparr>model = ''gpt-5-nano'', input = parts, instructions = system_prompt,
      tools = [\<lparr>vector_store_ids = [VECTOR_STORE_ID], max_num_results = 20\<rparr>],
      req_previous_response_id = prev\<rparr>"

text \<open>The input items of a submission: what the handler passes to the remote call.\<close>

definition submitted_parts :: "string \<Rightarrow> uploaded_file list \<Rightarrow> item list" where
  "submitted_parts prompt uploaded = build_input_parts prompt (map to_image uploaded)"

text \<open>A stored message is plain: its role is one of the two roles and its content a string.\<close>

fun is_str :: "content \<Rightarrow> bool" where
  "is_str (Str t) = True"
| "is_str (Items xs) = False"

definition plain_message :: "message \<Rightarrow> bool" where
  "plain_message m = (role m \<in> set [''user'', ''assistant''] \<and> is_str (content m))"

definition plain_history :: "session_state \<Rightarrow> bool" where
  "plain_history s = list_all plain_message (messages s)"

text \<open>
  A session is a sequence of runs of the script on the same session state; each turn
  gives the provider's behaviour at that run, the prompt and the uploads.
\<close>

type_synonym turn = "(request \<Rightarrow> string + response) \<times> string \<times> uploaded_file list"

fun run_turns :: "string option \<Rightarrow> turn list \<Rightarrow> session_state \<Rightarrow> session_state \<times> event list" where
  "run_turns v [] s = (s, [])"
| "run_turns v ((create, p, ups) # ts) s =
     (let (s1, e1) = on_prompt v create (Some p) ups s;
          (s2, e2) = run_turns v ts s1
      in (s2, e1 @ e2))"

text \<open>
  The identifier kept after one call: the value of the attribute \<^verbatim>\<open>id\<close> of the response
  (a string or \<^verbatim>\<open>None\<close>) when the call succeeded and the response has that attribute,
  the previous one when the call failed or the response has no such attribute.
\<close>

definition kept_id :: "string option \<Rightarrow> string + response \<Rightarrow> string option" where
  "kept_id prev outcome =
     (case outcome of
        Inl e \<Rightarrow> prev
      | Inr r \<Rightarrow> (case id_attr r of Some i \<Rightarrow> i | None \<Rightarrow> prev))"

text \<open>The identifiers that a chained session passes to its calls, one per turn.\<close>

fun chained_ids :: "string option \<Rightarrow> turn list \<Rightarrow> string option \<Rightarrow> string option list" where
  "chained_ids v [] prev = []"
| "chained_ids v ((create, p, ups) # ts) prev =
     prev # chained_ids v ts
              (kept_id prev (create (responses_request v (submitted_parts p ups) prev)))"

text \<open>
  The method \<^verbatim>\<open>responses.create\<close> of the client library sends the request to the
  provider and, when the provider answers, returns a typed response object. An answer
  is the text of the provider and the identifier it supplied for the exchange, \<open>None\<close>
  when it supplied none. The object built from an answer always has the attribute
  \<^verbatim>\<open>id\<close>; its value is \<^verbatim>\<open>None\<close> when the answer carried no identifier.
\<close>

type_synonym answer = "string \<times> string option"

definition typed_response :: "answer \<Rightarrow> response" where
  "typed_response a = \<lparr>output_text = fst a, id_attr = Some (snd a)\<rparr>"

definition client_create :: "(request \<Rightarrow> string + answer) \<Rightarrow> request \<Rightarrow> string + response" where
  "client_create provider req =
     (case provider req of Inl e \<Rightarrow> Inl e | Inr a \<Rightarrow> Inr (typed_response a))"

text \<open>A turn of a session in which the response objects come from the client library.\<close>

type_synonym exchange = "(request \<Rightarrow> string + answer) \<times> string \<times> uploaded_file list"

fun client_turn :: "exchange \<Rightarrow> turn" where
  "client_turn (provider, p, ups) = (client_create provider, p, ups)"

text \<open>
  Chaining as the specification words it: each call is given the identifier that the
  provider supplied in the most recent successful exchange before it, a failed exchange
  changes nothing, and the first call is given the identifier of the starting state.
\<close>

fun chained_tokens ::
  "string option \<Rightarrow> exchange list \<Rightarrow> string option \<Rightarrow> string option list" where
  "chained_tokens v [] prev = []"
| "chained_tokens v ((provider, p, ups) # xs) prev =
     prev # chained_tokens v xs
              (case provider (responses_request v (submitted_parts p ups) prev) of
                 Inl e \<Rightarrow> prev
               | Inr a \<Rightarrow> snd a)"

text \<open>
  Providers and a constructor for concrete runs: a \<open>create\<close> that raises, a \<open>create\<close>
  that returns a given response object, a provider that fails, a provider that gives a
  given answer, and a constructor that raises when it is given no key
  and returns the key as the client otherwise. The constructor of the provider's library
  refuses a missing key in this way once the environment holds none either, which is
  the case when \<^verbatim>\<open>os.getenv("OPENAI_API_KEY")\<close> returned \<^verbatim>\<open>None\<close>.
\<close>

definition failing_create :: "string \<Rightarrow> request \<Rightarrow> string + response" where
  "failing_create e req = Inl e"

definition answering_create :: "response \<Rightarrow> request \<Rightarrow> string + response" where
  "answering_create r req = Inr r"

definition failing_provider :: "string \<Rightarrow> request \<Rightarrow> string + answer" where
  "failing_provider e req = Inl e"

definition answering_provider :: "answer \<Rightarrow> request \<Rightarrow> string + answer" where
  "answering_provider a req = Inr a"

definition refusing_constructor :: "string option \<Rightarrow> string + string" where
  "refusing_constructor key =
     (case key of
        None \<Rightarrow>
          Inl (''The api_key client option must be set either by passing api_key to the ''
               @ ''client or by setting the OPENAI_API_KEY environment variable'')
      | Some k \<Rightarrow> Inr k)"

section \<open>Request builder: properties\<close>

lemma strip_Nil: "strip [] = []"
  by (simp add: strip_def)

lemma strip_nonempty: "strip t \<noteq> [] \<Longrightarrow> t \<noteq> []"
  by (auto simp: strip_Nil)

lemma append_images_map:
  "append_images acc images = acc @ map (\<lambda>img. InputImage (data_url img)) images"
  by (induction images arbitrary: acc) simp_all

lemma build_input_parts_content:
  "build_input_parts t images =
     (let cs = (if strip t \<noteq> [] then [InputText (strip t)] else [])
                @ map (\<lambda>img. InputImage (data_url img)) images
      in if cs \<noteq> [] then [Message ''user'' cs] else [])"
  by (auto simp: build_input_parts_def append_images_map Let_def strip_Nil)

lemma data_url_to_image:
  "data_url (to_image f) = ''data:'' @ type_or_default f @ '';base64,'' @ b64encode (fdata f)"
  by (simp add: to_image_def)

text \<open>
  Claim C1. For every text and every list of uploads, the builder returns nothing when the
  text strips to the empty string and there is no upload; otherwise it returns the user
  message whose content is the stripped text (present exactly when it is not empty)
  followed by one image part per upload, in the order of the uploads, each holding the
  data URI \<^verbatim>\<open>data:<type>;base64,<base64 of the bytes>\<close> with \<^verbatim>\<open>image/png\<close> for a missing
  type.
\<close>

theorem build_input_parts_spec:
  "build_input_parts t (map to_image uploaded) =
     (if strip t = [] \<and> uploaded = [] then []
      else [Message ''user''
              ((if strip t = [] then [] else [InputText (strip t)])
               @ map (\<lambda>f. InputImage
                      (''data:''
                       @ (case ftype f of None \<Rightarrow> ''image/png''
                          | Some m \<Rightarrow> if m = [] then ''image/png'' else m)
                       @ '';base64,'' @ b64encode (fdata f))) uploaded)])"
  by (simp add: build_input_parts_content Let_def data_url_to_image type_or_default_def comp_def)

theorem build_input_parts_spec_witness:
  "build_input_parts ''  Q1?  ''
      (map to_image [\<lparr>ftype = None, fdata = [77, 97, 110]\<rparr>,
                     \<lparr>ftype = Some ''image/jpeg'', fdata = [102]\<rparr>]) =
   [Message ''user'' [InputText ''Q1?'', InputImage ''data:image/png;base64,TWFu'',
                      InputImage ''data:image/jpeg;base64,Zg=='']]
   \<and> build_input_parts '' '' (map to_image []) = []"
  using build_input_parts_spec [of "''  Q1?  ''" "[\<lparr>ftype = None, fdata = [77, 97, 110]\<rparr>,
                     \<lparr>ftype = Some ''image/jpeg'', fdata = [102]\<rparr>]"]
        build_input_parts_spec [of "'' ''" "[]"]
  by (simp add: strip_def isspace_def b64_char_def b64_alphabet_def)

section \<open>Submission: properties\<close>

lemma call_responses_api_eq:
  "call_responses_api v create parts prev =
     (create (responses_request v parts prev), [ApiCall (responses_request v parts prev)])"
  by (simp add: call_responses_api_def responses_request_def Let_def)

lemma generate_response_failure:
  assumes "create (responses_request v parts (previous_response_id s)) = Inl e"
  shows "generate_response v create parts s =
           (s, [ApiCall (responses_request v parts (previous_response_id s)),
                Error (''Error generating response: '' @ e)])"
  using assms by (simp add: generate_response_def call_responses_api_eq)

lemma generate_response_success:
  assumes "create (responses_request v parts (previous_response_id s)) = Inr r"
  shows "generate_response v create parts s =
           (s\<lparr>messages := messages s @ [\<lparr>role = ''assistant'', content = Str (output_text r)\<rparr>],
              previous_response_id := kept_id (previous_response_id s) (Inr r)\<rparr>,
            [ApiCall (responses_request v parts (previous_response_id s)),
             Markdown (output_text r)])"
  using assms
  by (simp add: generate_response_def call_responses_api_eq get_text_output_def kept_id_def
           Let_def split: option.splits)

lemma on_prompt_Some:
  "on_prompt v create (Some p) ups s =
     (fst (generate_response v create (submitted_parts p ups) (store_user_message p s)),
      display_parts (submitted_parts p ups)
      @ snd (generate_response v create (submitted_parts p ups) (store_user_message p s)))"
  by (simp add: on_prompt_def submitted_parts_def Let_def split: prod.splits)

lemma store_user_message_simps:
  "messages (store_user_message p s) = messages s @ [\<lparr>role = ''user'', content = Str p\<rparr>]"
  "previous_response_id (store_user_message p s) = previous_response_id s"
  by (simp_all add: store_user_message_def)

lemma on_prompt_failure:
  assumes "create (responses_request v (submitted_parts p ups) (previous_response_id s)) = Inl e"
  shows "on_prompt v create (Some p) ups s =
           (store_user_message p s,
            display_parts (submitted_parts p ups)
            @ [ApiCall (responses_request v (submitted_parts p ups) (previous_response_id s)),
               Error (''Error generating response: '' @ e)])"
  using assms
  by (simp add: on_prompt_Some generate_response_failure store_user_message_simps)

lemma on_prompt_success:
  assumes "create (responses_request v (submitted_parts p ups) (previous_response_id s)) = Inr r"
  shows "on_prompt v create (Some p) ups s =
           (s\<lparr>messages := messages s @ [\<lparr>role = ''user'', content = Str p\<rparr>,
                                        \<lparr>role = ''assistant'', content = Str (output_text r)\<rparr>],
              previous_response_id := kept_id (previous_response_id s) (Inr r)\<rparr>,
            display_parts (submitted_parts p ups)
            @ [ApiCall (responses_request v (submitted_parts p ups) (previous_response_id s)),
               Markdown (output_text r)])"
  using assms
  by (simp add: on_prompt_Some generate_response_success store_user_message_simps)

lemma api_calls_append: "api_calls (xs @ ys) = api_calls xs @ api_calls ys"
  by (induction xs rule: api_calls.induct) simp_all

lemma api_calls_display_items: "api_calls (map display_content_item cs) = []"
proof (induction cs)
  case Nil
  show ?case by simp
next
  case (Cons c cs)
  then show ?case by (cases c) simp_all
qed

lemma api_calls_display_parts: "api_calls (display_parts ps) = []"
  unfolding display_parts_def
  by (induction ps) (simp_all add: api_calls_append api_calls_display_items)

lemma on_prompt_calls:
  "api_calls (snd (on_prompt v create (Some p) ups s)) =
     [responses_request v (submitted_parts p ups) (previous_response_id s)]"
  by (cases "create (responses_request v (submitted_parts p ups) (previous_response_id s))")
     (simp_all add: on_prompt_failure on_prompt_success api_calls_append api_calls_display_parts)

lemma on_prompt_token:
  "previous_response_id (fst (on_prompt v create (Some p) ups s)) =
     kept_id (previous_response_id s)
       (create (responses_request v (submitted_parts p ups) (previous_response_id s)))"
  by (cases "create (responses_request v (submitted_parts p ups) (previous_response_id s))")
     (simp_all add: on_prompt_failure on_prompt_success store_user_message_simps kept_id_def)

lemma on_prompt_messages:
  "messages (fst (on_prompt v create (Some p) ups s)) =
     messages s @ \<lparr>role = ''user'', content = Str p\<rparr>
       # (case create (responses_request v (submitted_parts p ups) (previous_response_id s)) of
            Inl e \<Rightarrow> []
          | Inr r \<Rightarrow> [\<lparr>role = ''assistant'', content = Str (output_text r)\<rparr>])"
  by (cases "create (responses_request v (submitted_parts p ups) (previous_response_id s))")
     (simp_all add: on_prompt_failure on_prompt_success store_user_message_simps)

lemma client_create_success:
  assumes "provider req = Inr a"
  shows "client_create provider req = Inr (typed_response a)"
  using assms by (simp add: client_create_def)

lemma client_create_failure:
  assumes "provider req = Inl e"
  shows "client_create provider req = Inl e"
  using assms by (simp add: client_create_def)

text \<open>
  Claim C2. When the remote call of a submission succeeds, the stored history is the
  previous one followed by the new user message and then the new assistant message,
  whose content is the text extracted from the response, and the stored identifier is
  the one that the provider returned for this exchange.
\<close>

theorem submit_success:
  assumes "provider (responses_request v (submitted_parts p ups) (previous_response_id s))
             = Inr (t, tok)"
  shows "messages (fst (on_prompt v (client_create provider) (Some p) ups s)) =
           messages s @ [\<lparr>role = ''user'', content = Str p\<rparr>,
                         \<lparr>role = ''assistant'',
                          content = Str (get_text_output (typed_response (t, tok)))\<rparr>]
         \<and> get_text_output (typed_response (t, tok)) = t
         \<and> previous_response_id (fst (on_prompt v (client_create provider) (Some p) ups s)) = tok"
proof -
  have "client_create provider
          (responses_request v (submitted_parts p ups) (previous_response_id s)) =
        Inr (typed_response (t, tok))"
    using assms by (simp add: client_create_def)
  then show ?thesis
    by (simp add: on_prompt_success get_text_output_def kept_id_def typed_response_def)
qed

theorem submit_success_witness:
  "messages (fst (on_prompt (Some ''vs_1'')
       (client_create (answering_provider (''12 bn'', Some ''resp_1'')))
       (Some ''What was Q1 revenue?'') [] initial_state)) =
     [\<lparr>role = ''user'', content = Str ''What was Q1 revenue?''\<rparr>,
      \<lparr>role = ''assistant'', content = Str ''12 bn''\<rparr>]
   \<and> previous_response_id (fst (on_prompt (Some ''vs_1'')
       (client_create (answering_provider (''12 bn'', Some ''resp_1'')))
       (Some ''What was Q1 revenue?'') [] initial_state)) = Some ''resp_1''"
  using submit_success [of "answering_provider (''12 bn'', Some ''resp_1'')"
      "Some ''vs_1''" "''What was Q1 revenue?''" "[]" initial_state "''12 bn''" "Some ''resp_1''"]
  by (simp add: answering_provider_def initial_state_def)

text \<open>
  Claim C3. When the remote call of a submission fails, the call phase was entered in the
  state that already holds the user message and returns that state: the history grew by
  the user message only, the stored identifier is the one from before, and the run ends
  normally with an error message on the page.
\<close>

theorem submit_failure:
  assumes "create (responses_request v (submitted_parts p ups) (previous_response_id s)) = Inl e"
  shows "generate_response v create (submitted_parts p ups) (store_user_message p s) =
           (store_user_message p s,
            [ApiCall (responses_request v (submitted_parts p ups) (previous_response_id s)),
             Error (''Error generating response: '' @ e)])
         \<and> on_prompt v create (Some p) ups s =
           (store_user_message p s,
            display_parts (submitted_parts p ups)
            @ [ApiCall (responses_request v (submitted_parts p ups) (previous_response_id s)),
               Error (''Error generating response: '' @ e)])
         \<and> messages (store_user_message p s) = messages s @ [\<lparr>role = ''user'', content = Str p\<rparr>]
         \<and> length (messages (fst (on_prompt v create (Some p) ups s))) = Suc (length (messages s))
         \<and> previous_response_id (fst (on_prompt v create (Some p) ups s)) = previous_response_id s"
  using assms
  by (simp add: on_prompt_failure generate_response_failure store_user_message_simps)

theorem submit_failure_witness:
  "on_prompt None (failing_create ''timeout'') (Some ''hello'') []
       \<lparr>messages = [], previous_response_id = Some ''resp_1''\<rparr> =
     (\<lparr>messages = [\<lparr>role = ''user'', content = Str ''hello''\<rparr>],
       previous_response_id = Some ''resp_1''\<rparr>,
      [Markdown ''hello'',
       ApiCall (responses_request None [Message ''user'' [InputText ''hello'']] (Some ''resp_1'')),
       Error ''Error generating response: timeout''])"
  using submit_failure [of "failing_create ''timeout''" None "''hello''" "[]"
      "\<lparr>messages = [], previous_response_id = Some ''resp_1''\<rparr>" "''timeout''"]
  by (simp add: failing_create_def store_user_message_def submitted_parts_def
        build_input_parts_content strip_def isspace_def display_parts_def)

section \<open>Submission with no content\<close>

text \<open>
  Claim C4, as stated, fails: for a prompt of two spaces and no upload the builder
  returns nothing, yet the handler stores the user message and issues the remote call,
  so the state is not the one it started from.
\<close>

theorem empty_submission_counterexample:
  "strip ''  '' = [] \<and> submitted_parts ''  '' [] = []
   \<and> on_prompt None (failing_create ''rejected'') (Some ''  '') [] initial_state =
       (\<lparr>messages = [\<lparr>role = ''user'', content = Str ''  ''\<rparr>], previous_response_id = None\<rparr>,
        [ApiCall (responses_request None [] None),
         Error ''Error generating response: rejected''])
   \<and> on_prompt None (failing_create ''rejected'') (Some ''  '') [] initial_state
       \<noteq> (initial_state, [])"
  by (simp add: on_prompt_failure failing_create_def submitted_parts_def
        build_input_parts_content strip_def isspace_def display_parts_def
        store_user_message_def initial_state_def)

text \<open>
  Claim C4, amended. When the text strips to the empty string and nothing is uploaded,
  the builder returns nothing; the handler still appends the user message holding the
  raw prompt and issues exactly one remote call, with the empty input and the stored
  identifier, which is replaced only when that call succeeds with a response that has
  the attribute \<^verbatim>\<open>id\<close>. The state is returned as it was, with no call, only when the
  chat input delivered no prompt.
\<close>

theorem empty_submission:
  assumes "strip t = []"
  shows "submitted_parts t [] = []
         \<and> messages (fst (on_prompt v create (Some t) [] s)) =
             messages s @ \<lparr>role = ''user'', content = Str t\<rparr>
               # (case create (responses_request v [] (previous_response_id s)) of
                    Inl e \<Rightarrow> []
                  | Inr r \<Rightarrow> [\<lparr>role = ''assistant'', content = Str (output_text r)\<rparr>])
         \<and> api_calls (snd (on_prompt v create (Some t) [] s)) =
             [responses_request v [] (previous_response_id s)]
         \<and> previous_response_id (fst (on_prompt v create (Some t) [] s)) =
             kept_id (previous_response_id s)
               (create (responses_request v [] (previous_response_id s)))
         \<and> on_prompt v create None [] s = (s, [])"
proof -
  have parts: "submitted_parts t [] = []"
    using assms by (simp add: submitted_parts_def build_input_parts_content)
  show ?thesis
    using on_prompt_messages [of v create t "[]" s] on_prompt_calls [of v create t "[]" s]
      on_prompt_token [of v create t "[]" s]
    by (simp add: parts on_prompt_def)
qed

theorem empty_submission_witness:
  "strip ''  '' = [] \<and> submitted_parts ''  '' [] = []
   \<and> messages (fst (on_prompt None (answering_create \<lparr>output_text = ''Hi'', id_attr = Some (Some ''resp_1'')\<rparr>)
                       (Some ''  '') [] initial_state)) =
       [\<lparr>role = ''user'', content = Str ''  ''\<rparr>, \<lparr>role = ''assistant'', content = Str ''Hi''\<rparr>]
   \<and> api_calls (snd (on_prompt None (answering_create \<lparr>output_text = ''Hi'', id_attr = Some (Some ''resp_1'')\<rparr>)
                       (Some ''  '') [] initial_state)) =
       [responses_request None [] None]"
proof -
  have h: "strip ''  '' = []" by (simp add: strip_def isspace_def)
  show ?thesis
    using h empty_submission [OF h, of None
        "answering_create \<lparr>output_text = ''Hi'', id_attr = Some (Some ''resp_1'')\<rparr>" initial_state]
    by (simp add: answering_create_def initial_state_def)
qed

section \<open>Chaining of the response identifier\<close>

lemma run_turns_Cons:
  "run_turns v ((c, p, ups) # ts) s =
     (fst (run_turns v ts (fst (on_prompt v c (Some p) ups s))),
      snd (on_prompt v c (Some p) ups s)
      @ snd (run_turns v ts (fst (on_prompt v c (Some p) ups s))))"
  by (simp split: prod.splits)

lemma run_turns_calls:
  "map req_previous_response_id (api_calls (snd (run_turns v ts s))) =
     chained_ids v ts (previous_response_id s)"
proof (induction ts arbitrary: s)
  case Nil
  show ?case by simp
next
  case (Cons t ts)
  obtain create p ups where t: "t = (create, p, ups)" by (cases t) auto
  have "map req_previous_response_id (api_calls (snd (run_turns v (t # ts) s))) =
          map req_previous_response_id (api_calls (snd (on_prompt v create (Some p) ups s)))
          @ map req_previous_response_id
              (api_calls (snd (run_turns v ts (fst (on_prompt v create (Some p) ups s)))))"
    by (simp add: t run_turns_Cons api_calls_append del: run_turns.simps)
  also have "\<dots> = previous_response_id s
                   # chained_ids v ts (previous_response_id (fst (on_prompt v create (Some p) ups s)))"
    by (simp add: on_prompt_calls Cons.IH responses_request_def)
  finally show ?case by (simp add: t on_prompt_token)
qed

lemma run_turns_token:
  "previous_response_id (fst (run_turns v (ts @ [(create, p, ups)]) s)) =
     kept_id (previous_response_id (fst (run_turns v ts s)))
       (create (responses_request v (submitted_parts p ups)
                  (previous_response_id (fst (run_turns v ts s)))))"
proof (induction ts arbitrary: s)
  case Nil
  show ?case by (simp add: run_turns_Cons on_prompt_token del: run_turns.simps(2))
next
  case (Cons t ts)
  obtain c q us where t: "t = (c, q, us)" by (cases t) auto
  show ?case
    using Cons.IH [of "fst (on_prompt v c (Some q) us s)"]
    by (simp add: t run_turns_Cons del: run_turns.simps)
qed

lemma kept_id_client_create:
  "kept_id prev (client_create provider req) =
     (case provider req of Inl e \<Rightarrow> prev | Inr a \<Rightarrow> snd a)"
  by (simp add: kept_id_def client_create_def typed_response_def split: sum.splits)

lemma chained_ids_client:
  "chained_ids v (map client_turn xs) prev = chained_tokens v xs prev"
proof (induction xs arbitrary: prev)
  case Nil
  show ?case by simp
next
  case (Cons x xs)
  obtain provider p ups where x: "x = (provider, p, ups)" by (cases x) auto
  show ?case by (simp add: x Cons.IH kept_id_client_create)
qed

text \<open>
  Claim C5. Over any sequence of submissions answered through the client, the
  identifier passed into each call is the one the provider supplied in the most recent
  successful exchange before it; after a further exchange the stored identifier is the
  one of that exchange when it succeeded, and the one stored before when it failed.
\<close>

theorem token_chaining:
  "map req_previous_response_id (api_calls (snd (run_turns v (map client_turn xs) s))) =
     chained_tokens v xs (previous_response_id s)
   \<and> previous_response_id
       (fst (run_turns v (map client_turn (xs @ [(provider, p, ups)])) s)) =
       (case provider (responses_request v (submitted_parts p ups)
                         (previous_response_id (fst (run_turns v (map client_turn xs) s)))) of
          Inl e \<Rightarrow> previous_response_id (fst (run_turns v (map client_turn xs) s))
        | Inr a \<Rightarrow> snd a)"
  by (simp add: run_turns_calls run_turns_token chained_ids_client kept_id_client_create)

theorem token_chaining_witness:
  "map req_previous_response_id
     (api_calls (snd (run_turns None
        (map client_turn
           [(answering_provider (''one'', Some ''resp_1''), ''a'', []),
            (answering_provider (''two'', Some ''resp_2''), ''b'', []),
            (failing_provider ''down'', ''c'', []),
            (answering_provider (''four'', Some ''resp_4''), ''d'', []),
            (answering_provider (''five'', None), ''e'', []),
            (answering_provider (''six'', Some ''resp_6''), ''f'', [])])
        initial_state)))
   = [None, Some ''resp_1'', Some ''resp_2'', Some ''resp_2'', Some ''resp_4'', None]"
  using token_chaining [of None
          "[(answering_provider (''one'', Some ''resp_1''), ''a'', []),
            (answering_provider (''two'', Some ''resp_2''), ''b'', []),
            (failing_provider ''down'', ''c'', []),
            (answering_provider (''four'', Some ''resp_4''), ''d'', []),
            (answering_provider (''five'', None), ''e'', []),
            (answering_provider (''six'', Some ''resp_6''), ''f'', [])]"
          initial_state "failing_provider ''x''" "''g''" "[]"]
  by (simp add: answering_provider_def failing_provider_def initial_state_def)

section \<open>What the history stores\<close>

text \<open>
  Claim C6, as stated, fails: for the prompt \<open>hi\<close> with one uploaded image the builder
  produces a text part and an image part, but the user message in the history holds the
  string \<open>hi\<close>, not those parts.
\<close>

theorem user_turn_content_counterexample:
  "submitted_parts ''hi'' [\<lparr>ftype = Some ''image/png'', fdata = [1]\<rparr>] =
     [Message ''user'' [InputText ''hi'', InputImage ''data:image/png;base64,AQ=='']]
   \<and> messages (fst (on_prompt None (answering_create \<lparr>output_text = ''ok'', id_attr = Some (Some ''resp_1'')\<rparr>)
                      (Some ''hi'') [\<lparr>ftype = Some ''image/png'', fdata = [1]\<rparr>] initial_state)) =
       [\<lparr>role = ''user'', content = Str ''hi''\<rparr>, \<lparr>role = ''assistant'', content = Str ''ok''\<rparr>]
   \<and> content \<lparr>role = ''user'', content = Str ''hi''\<rparr>
       \<noteq> Items (submitted_parts ''hi'' [\<lparr>ftype = Some ''image/png'', fdata = [1]\<rparr>])"
  by (simp add: on_prompt_messages answering_create_def initial_state_def submitted_parts_def
        build_input_parts_content strip_def isspace_def to_image_def type_or_default_def
        b64_char_def b64_alphabet_def)

text \<open>
  Claim C6, amended. For every submission the user message appended to the history
  holds the raw prompt string as its content; the parts produced by the builder, image
  parts included, are the input of the remote call and are not stored in the history.
\<close>

theorem user_turn_is_raw_prompt:
  "messages (fst (on_prompt v create (Some p) ups s)) ! length (messages s) =
     \<lparr>role = ''user'', content = Str p\<rparr>
   \<and> length (messages s) < length (messages (fst (on_prompt v create (Some p) ups s)))
   \<and> map input (api_calls (snd (on_prompt v create (Some p) ups s))) =
       [build_input_parts p (map to_image ups)]"
  by (simp add: on_prompt_messages on_prompt_calls responses_request_def submitted_parts_def)

theorem user_turn_is_raw_prompt_witness:
  "messages (fst (on_prompt None (failing_create ''down'') (Some '' hi '')
                     [\<lparr>ftype = None, fdata = [1]\<rparr>] initial_state)) ! 0 =
     \<lparr>role = ''user'', content = Str '' hi ''\<rparr>
   \<and> map input (api_calls (snd (on_prompt None (failing_create ''down'') (Some '' hi '')
                     [\<lparr>ftype = None, fdata = [1]\<rparr>] initial_state))) =
       [[Message ''user'' [InputText ''hi'', InputImage ''data:image/png;base64,AQ=='']]]"
  using user_turn_is_raw_prompt [of None "failing_create ''down''" "'' hi ''"
          "[\<lparr>ftype = None, fdata = [1]\<rparr>]" initial_state]
  by (simp add: initial_state_def build_input_parts_content strip_def isspace_def to_image_def
        type_or_default_def b64_char_def b64_alphabet_def)

lemma plain_history_append:
  "plain_history (s\<lparr>messages := messages s @ ms\<rparr>) = (plain_history s \<and> list_all plain_message ms)"
  by (simp add: plain_history_def)

text \<open>
  Claim C10. A history in which every message has the role \<open>user\<close> or \<open>assistant\<close>
  and a string as content stays so under a submission, whatever the outcome of the
  remote call, and under the sidebar; a submission appends the raw prompt as the user
  message and, on success, the text of the response as the assistant message.
\<close>

theorem plain_history_preserved:
  assumes "plain_history s"
  shows "plain_history (fst (on_prompt v create prompt ups s))
         \<and> plain_history (fst (sidebar clicked s))
         \<and> messages (fst (on_prompt v create (Some p) ups s)) =
             messages s @ \<lparr>role = ''user'', content = Str p\<rparr>
               # (case create (responses_request v (submitted_parts p ups) (previous_response_id s)) of
                    Inl e \<Rightarrow> []
                  | Inr r \<Rightarrow> [\<lparr>role = ''assistant'', content = Str (get_text_output r)\<rparr>])"
proof -
  have a: "plain_history (fst (on_prompt v create prompt ups s))"
  proof (cases prompt)
    case None
    then show ?thesis using assms by (simp add: on_prompt_def)
  next
    case (Some q)
    have "list_all plain_message (messages (fst (on_prompt v create (Some q) ups s)))"
      using assms
      by (simp add: on_prompt_messages plain_history_def plain_message_def split: sum.splits)
    then show ?thesis by (simp add: Some plain_history_def)
  qed
  have b: "plain_history (fst (sidebar clicked s))"
    using assms by (simp add: sidebar_def clear_conversation_def plain_history_def)
  show ?thesis
    using a b by (simp add: on_prompt_messages get_text_output_def split: sum.splits)
qed

theorem plain_history_preserved_witness:
  "plain_history initial_state
   \<and> plain_history (fst (on_prompt None (answering_create \<lparr>output_text = ''ok'', id_attr = Some None\<rparr>)
                          (Some '' hi '') [\<lparr>ftype = None, fdata = [1]\<rparr>] initial_state))
   \<and> messages (fst (on_prompt None (answering_create \<lparr>output_text = ''ok'', id_attr = Some None\<rparr>)
                          (Some '' hi '') [\<lparr>ftype = None, fdata = [1]\<rparr>] initial_state)) =
       [\<lparr>role = ''user'', content = Str '' hi ''\<rparr>, \<lparr>role = ''assistant'', content = Str ''ok''\<rparr>]"
proof -
  have h: "plain_history initial_state" by (simp add: plain_history_def initial_state_def)
  show ?thesis
    using h plain_history_preserved [OF h, of None
        "answering_create \<lparr>output_text = ''ok'', id_attr = Some None\<rparr>"
        "Some '' hi ''" "[\<lparr>ftype = None, fdata = [1]\<rparr>]" True "'' hi ''"]
    by (simp add: answering_create_def initial_state_def get_text_output_def)
qed

section \<open>Clearing the conversation\<close>

text \<open>
  Claim C7. Clearing returns, from every state, the state with no message and no stored
  identifier; it writes a success note and asks for a rerun, issues no remote call, has
  no failing branch, and clearing twice gives the same state as clearing once.
\<close>

theorem clear_conversation_reset:
  "fst (clear_conversation s) = \<lparr>messages = [], previous_response_id = None\<rparr>
   \<and> snd (clear_conversation s) = [Success ''Conversation cleared'', Rerun]
   \<and> api_calls (snd (clear_conversation s)) = []
   \<and> fst (clear_conversation (fst (clear_conversation s))) = fst (clear_conversation s)
   \<and> sidebar True s = clear_conversation s"
  by (simp add: clear_conversation_def sidebar_def)

theorem clear_conversation_reset_witness:
  "fst (clear_conversation
          \<lparr>messages = [\<lparr>role = ''user'', content = Str ''a''\<rparr>,
                       \<lparr>role = ''assistant'', content = Str ''b''\<rparr>],
            previous_response_id = Some ''resp_2''\<rparr>) = initial_state"
  using clear_conversation_reset
          [of "\<lparr>messages = [\<lparr>role = ''user'', content = Str ''a''\<rparr>,
                       \<lparr>role = ''assistant'', content = Str ''b''\<rparr>],
            previous_response_id = Some ''resp_2''\<rparr>"]
  by (simp add: initial_state_def)

section \<open>A response without identifier\<close>

text \<open>
  The guard of line 203 by itself: a response object without the attribute \<^verbatim>\<open>id\<close>
  leaves the stored identifier as it was. The objects that the client builds from an
  answer are never of this shape.
\<close>

lemma no_id_attribute_keeps_token:
  assumes "create (responses_request v (submitted_parts p ups) (previous_response_id s)) = Inr r"
    and "id_attr r = None"
  shows "previous_response_id (fst (on_prompt v create (Some p) ups s)) = previous_response_id s"
  using assms by (simp add: on_prompt_token kept_id_def)

text \<open>
  Claim C8. When the provider's answer to a successful call carries no identifier, the
  attribute \<^verbatim>\<open>id\<close> of the response object is \<^verbatim>\<open>None\<close>, the stored identifier becomes
  absent, whatever was stored before, and the remote call of the next submission is
  issued without an identifier.
\<close>

theorem missing_id_clears_token:
  assumes "provider (responses_request v (submitted_parts p ups) (previous_response_id s))
             = Inr (t, None)"
  shows "id_attr (typed_response (t, None)) = Some None
         \<and> previous_response_id (fst (on_prompt v (client_create provider) (Some p) ups s)) = None
         \<and> api_calls (snd (on_prompt v create' (Some p') ups'
                              (fst (on_prompt v (client_create provider) (Some p) ups s)))) =
             [responses_request v (submitted_parts p' ups') None]"
proof -
  have "client_create provider
          (responses_request v (submitted_parts p ups) (previous_response_id s)) =
        Inr (typed_response (t, None))"
    using assms by (simp add: client_create_def)
  then show ?thesis
    by (simp add: on_prompt_calls on_prompt_token kept_id_def typed_response_def)
qed

theorem missing_id_clears_token_witness:
  "previous_response_id
     (fst (on_prompt None (client_create (answering_provider (''ok'', None)))
             (Some ''a'') [] \<lparr>messages = [], previous_response_id = Some ''resp_1''\<rparr>)) = None
   \<and> api_calls (snd (on_prompt None (failing_create ''down'') (Some ''b'') []
        (fst (on_prompt None (client_create (answering_provider (''ok'', None)))
                (Some ''a'') [] \<lparr>messages = [], previous_response_id = Some ''resp_1''\<rparr>)))) =
       [responses_request None (submitted_parts ''b'' []) None]"
  using missing_id_clears_token [of "answering_provider (''ok'', None)"
          None "''a''" "[]" "\<lparr>messages = [], previous_response_id = Some ''resp_1''\<rparr>" "''ok''"
          "failing_create ''down''" "''b''" "[]"]
  by (simp add: answering_provider_def)

section \<open>Start of the script: properties\<close>

lemma startup_warnings:
  assumes "OpenAI key = Inr client"
  shows "startup OpenAI key vs =
           Inr (client,
                (if not_set key then [Warning ''OPENAI_API_KEY is not set''] else [])
                @ (if not_set vs then [Warning ''VECTOR_STORE_ID is not set''] else []))"
  using assms by (simp add: startup_def)

lemma startup_raises:
  assumes "OpenAI key = Inl e"
  shows "startup OpenAI key vs = Inl e"
  using assms by (simp add: startup_def)

text \<open>
  Claim C9 at the input where the key is absent: the client is constructed before the
  warnings, so with a constructor that refuses a missing key the run ends with the
  constructor's exception and writes no warning, whatever the vector store setting is.
\<close>

theorem startup_without_key:
  "startup refusing_constructor None vs =
     Inl (''The api_key client option must be set either by passing api_key to the ''
          @ ''client or by setting the OPENAI_API_KEY environment variable'')"
  by (simp add: startup_def refusing_constructor_def)

end
